theory Spec2Isabelle
  imports Complex_Main "HOL-Library.Code_Target_Nat"
begin

section \<open>JavaScript numbers, \<open>parseFloat\<close> and \<open>toFixed(2)\<close>\<close>

text \<open>
  The route handlers of \<open>server/routes.ts\<close> read every amount and every balance as a
  string, turn it into a number with \<open>parseFloat\<close>, compute with \<open>+\<close>, \<open>-\<close>,
  \<open>Math.max\<close>, \<open>>\<close> and \<open><\<close>, and turn the result back into a string with
  \<open>toFixed(2)\<close>.

  A number is kept here by its exact rational value, with \<open>NaN\<close> and the two infinities
  beside it. The binary rounding of an IEEE double is not part of this model (nor is the
  overflow of a large literal to \<open>Infinity\<close>, nor the switch of \<open>toFixed\<close> to exponent
  notation from \<open>10^21\<close> on). \<open>-0\<close> and \<open>+0\<close> are the same value; the handlers only
  compare and print zeros, and both zeros compare and print alike.
\<close>

datatype number = NaN | Fin rat | PosInf | NegInf

fun isNaN :: "number \<Rightarrow> bool" where
  "isNaN NaN = True"
| "isNaN _ = False"

fun js_neg :: "number \<Rightarrow> number" where
  "js_neg NaN = NaN"
| "js_neg (Fin a) = Fin (- a)"
| "js_neg PosInf = NegInf"
| "js_neg NegInf = PosInf"

fun js_add :: "number \<Rightarrow> number \<Rightarrow> number" where
  "js_add NaN _ = NaN"
| "js_add _ NaN = NaN"
| "js_add (Fin a) (Fin b) = Fin (a + b)"
| "js_add PosInf NegInf = NaN"
| "js_add NegInf PosInf = NaN"
| "js_add PosInf _ = PosInf"
| "js_add NegInf _ = NegInf"
| "js_add (Fin a) PosInf = PosInf"
| "js_add (Fin a) NegInf = NegInf"

definition js_sub :: "number \<Rightarrow> number \<Rightarrow> number" where
  "js_sub x y = js_add x (js_neg y)"

text \<open>\<open>x < y\<close> on numbers: false as soon as one side is \<open>NaN\<close>.\<close>

fun js_lt :: "number \<Rightarrow> number \<Rightarrow> bool" where
  "js_lt NaN _ = False"
| "js_lt _ NaN = False"
| "js_lt (Fin a) (Fin b) = (a < b)"
| "js_lt PosInf _ = False"
| "js_lt NegInf NegInf = False"
| "js_lt NegInf _ = True"
| "js_lt (Fin a) PosInf = True"
| "js_lt (Fin a) NegInf = False"

definition js_gt :: "number \<Rightarrow> number \<Rightarrow> bool" where
  "js_gt x y = js_lt y x"

text \<open>\<open>x <= y\<close>: again false on \<open>NaN\<close>, so it is not the negation of \<open>x > y\<close>.\<close>

definition js_le :: "number \<Rightarrow> number \<Rightarrow> bool" where
  "js_le x y = (\<not> isNaN x \<and> \<not> isNaN y \<and> \<not> js_lt y x)"

text \<open>\<open>Math.max(x, y)\<close>: \<open>NaN\<close> if an argument is \<open>NaN\<close>.\<close>

definition Math_max :: "number \<Rightarrow> number \<Rightarrow> number" where
  "Math_max x y = (if isNaN x \<or> isNaN y then NaN else if js_lt x y then y else x)"

subsection \<open>Decimal digits\<close>

definition isDigit :: "char \<Rightarrow> bool" where
  "isDigit c = (48 \<le> (of_char c :: nat) \<and> (of_char c :: nat) \<le> 57)"

definition digitVal :: "char \<Rightarrow> nat" where
  "digitVal c = of_char c - 48"

definition digitChar :: "nat \<Rightarrow> char" where
  "digitChar n = char_of (48 + n)"

text \<open>The value of a run of decimal digits, most significant first.\<close>

definition digitsVal :: "string \<Rightarrow> nat" where
  "digitsVal ds = foldl (\<lambda>acc c. 10 * acc + digitVal c) 0 ds"

text \<open>The decimal digits of a natural number, without leading zeros (\<open>0\<close> is \<open>''0''\<close>).\<close>

fun showNat :: "nat \<Rightarrow> string" where
  "showNat n = (if n < 10 then [digitChar n] else showNat (n div 10) @ [digitChar (n mod 10)])"

declare showNat.simps [simp del]

subsection \<open>\<open>parseFloat\<close>\<close>

text \<open>
  \<open>parseFloat(s)\<close> skips leading white space and reads the longest prefix that is a
  signed decimal literal: \<open>Infinity\<close>, or digits with an optional fraction, or a
  fraction alone, each with an optional exponent. What follows the literal is ignored;
  with no such prefix the result is \<open>NaN\<close>. White space is the ASCII white space and the
  no-break space (a \<open>char\<close> is one byte here).
\<close>

definition isWhiteSpace :: "char \<Rightarrow> bool" where
  "isWhiteSpace c = ((of_char c :: nat) \<in> {9, 10, 11, 12, 13, 32, 160})"

text \<open>The exponent part \<open>e[+-]digits\<close> at the head of the rest, as a power of ten.\<close>

definition exponentPart :: "string \<Rightarrow> rat" where
  "exponentPart r =
     (case r of
        [] \<Rightarrow> 1
      | c # r1 \<Rightarrow>
          if c = CHR ''e'' \<or> c = CHR ''E'' then
            (case r1 of
               [] \<Rightarrow> 1
             | s # r2 \<Rightarrow>
                 if s = CHR ''-'' then
                   (if takeWhile isDigit r2 = [] then 1
                    else 1 / 10 ^ digitsVal (takeWhile isDigit r2))
                 else if s = CHR ''+'' then
                   (if takeWhile isDigit r2 = [] then 1
                    else 10 ^ digitsVal (takeWhile isDigit r2))
                 else
                   (if takeWhile isDigit r1 = [] then 1
                    else 10 ^ digitsVal (takeWhile isDigit r1)))
          else 1)"

text \<open>An unsigned literal: the integer digits, then \<open>.\<close> and the fraction digits.\<close>

definition unsignedLiteral :: "string \<Rightarrow> number" where
  "unsignedLiteral u =
     (let ip = takeWhile isDigit u;
          r1 = dropWhile isDigit u;
          fp = (case r1 of [] \<Rightarrow> [] | c # r \<Rightarrow> if c = CHR ''.'' then takeWhile isDigit r else []);
          r2 = (case r1 of [] \<Rightarrow> [] | c # r \<Rightarrow> if c = CHR ''.'' then dropWhile isDigit r else r1)
      in if ip = [] \<and> fp = [] then NaN
         else Fin ((of_nat (digitsVal ip) + of_nat (digitsVal fp) / 10 ^ length fp)
                     * exponentPart r2))"

definition signedLiteral :: "string \<Rightarrow> number" where
  "signedLiteral u =
     (if take 8 u = ''Infinity'' then PosInf else unsignedLiteral u)"

definition parseFloat :: "string \<Rightarrow> number" where
  "parseFloat s =
     (case dropWhile isWhiteSpace s of
        [] \<Rightarrow> NaN
      | c # r \<Rightarrow>
          if c = CHR ''-'' then js_neg (signedLiteral r)
          else if c = CHR ''+'' then signedLiteral r
          else signedLiteral (c # r))"

subsection \<open>\<open>toFixed(2)\<close>\<close>

text \<open>
  \<open>x.toFixed(2)\<close>: \<open>NaN\<close> and the infinities print by name. Otherwise the sign is
  taken off a negative \<open>x\<close>, \<open>n\<close> is the integer nearest to \<open>100 * x\<close> (the larger one
  of two), and the digits of \<open>n\<close> are printed with a point before the last two. A
  negative \<open>x\<close> that rounds to zero prints as \<open>-0.00\<close>.
\<close>

definition hundredths :: "rat \<Rightarrow> nat" where
  "hundredths a = nat \<lfloor>a * 100 + 1 / 2\<rfloor>"

definition fixed2 :: "nat \<Rightarrow> string" where
  "fixed2 n = showNat (n div 100) @ [CHR ''.'', digitChar (n mod 100 div 10), digitChar (n mod 10)]"

fun toFixed2 :: "number \<Rightarrow> string" where
  "toFixed2 NaN = ''NaN''"
| "toFixed2 PosInf = ''Infinity''"
| "toFixed2 NegInf = ''-Infinity''"
| "toFixed2 (Fin x) =
     (if x < 0 then CHR ''-'' # fixed2 (hundredths (- x)) else fixed2 (hundredths x))"

section \<open>The store\<close>

text \<open>
  The tables of \<open>shared/schema.ts\<close> that the ledger routes touch, as lists of rows in
  insertion order. A \<open>decimal(10, 2)\<close> column is read and written as a string, as the
  driver hands it to the routes; the store keeps the string it is given (the check and
  the normalisation that the database applies to a decimal on its way in are not part of
  this model). The time stamps and the profile columns of a user are left out. A
  \<open>serial\<close> key is drawn from a counter that only grows.
\<close>

record user =
  uid :: string
  role :: string

record account =
  acc_id :: nat
  userId :: string
  balance :: string

record transaction =
  tx_id :: nat
  accountId :: nat
  tx_type :: string
  amount :: string
  description :: string
  createdBy :: string

record withdrawalRequest =
  wr_id :: nat
  wr_accountId :: nat
  wr_amount :: string
  reason :: string
  status :: string
  reviewedBy :: "string option"

record database =
  users :: "user list"
  accounts :: "account list"
  transactions :: "transaction list"
  withdrawalRequests :: "withdrawalRequest list"
  transactions_id_seq :: nat
  withdrawal_requests_id_seq :: nat

subsection \<open>\<open>DatabaseStorage\<close>\<close>

text \<open>\<open>const [user] = await db.select()...\<close>: the first row that matches, if any.\<close>

definition getUser :: "database \<Rightarrow> string \<Rightarrow> user option" where
  "getUser d i = find (\<lambda>u. uid u = i) (users d)"

definition getAccount :: "database \<Rightarrow> string \<Rightarrow> account option" where
  "getAccount d i = find (\<lambda>a. userId a = i) (accounts d)"

text \<open>The update has no key but \<open>user_id\<close>: every account of that user is written.\<close>

definition updateAccountBalance :: "database \<Rightarrow> string \<Rightarrow> string \<Rightarrow> database" where
  "updateAccountBalance d i newBalance =
     d\<lparr>accounts := map (\<lambda>a. if userId a = i then a\<lparr>balance := newBalance\<rparr> else a) (accounts d)\<rparr>"

text \<open>
  \<open>getAllStudents\<close>: the users of role student, left-joined with their accounts. A
  student with no account gives one row whose account is null; a student with several
  accounts gives one row for each. (The rows are kept in table order: the
  \<open>orderBy\<close> of the source only permutes them.)
\<close>

definition studentRows :: "database \<Rightarrow> user \<Rightarrow> (user \<times> account option) list" where
  "studentRows d u =
     (case filter (\<lambda>a. userId a = uid u) (accounts d) of
        [] \<Rightarrow> [(u, None)]
      | a # as \<Rightarrow> map (\<lambda>b. (u, Some b)) (a # as))"

definition getAllStudents :: "database \<Rightarrow> (user \<times> account option) list" where
  "getAllStudents d = concat (map (studentRows d) (filter (\<lambda>u. role u = ''student'') (users d)))"

definition createTransaction ::
  "database \<Rightarrow> nat \<Rightarrow> string \<Rightarrow> string \<Rightarrow> string \<Rightarrow> string \<Rightarrow> database \<times> transaction" where
  "createTransaction d acc ty am de by_user =
     (let newTransaction = \<lparr>tx_id = Suc (transactions_id_seq d), accountId = acc, tx_type = ty,
                              amount = am, description = de, createdBy = by_user\<rparr>
      in (d\<lparr>transactions := transactions d @ [newTransaction],
             transactions_id_seq := Suc (transactions_id_seq d)\<rparr>, newTransaction))"


text \<open>
  \<open>getPendingWithdrawalRequests\<close>: the requests whose status is \<open>pending\<close>, each
  left-joined with its account (by the account's primary key) and that account's user
  (by the user's primary key).
\<close>

definition pendingRow ::
  "database \<Rightarrow> withdrawalRequest \<Rightarrow> withdrawalRequest \<times> user option \<times> account option" where
  "pendingRow d r =
     (case find (\<lambda>a. acc_id a = wr_accountId r) (accounts d) of
        None \<Rightarrow> (r, None, None)
      | Some a \<Rightarrow> (r, find (\<lambda>u. uid u = userId a) (users d), Some a))"

definition getPendingWithdrawalRequests ::
  "database \<Rightarrow> (withdrawalRequest \<times> user option \<times> account option) list" where
  "getPendingWithdrawalRequests d =
     map (pendingRow d) (filter (\<lambda>r. status r = ''pending'') (withdrawalRequests d))"

text \<open>
  \<open>updateWithdrawalRequest\<close>: the update is keyed by the request's id alone, whatever
  the status of the row is. A status that the caller left out is not written. The result
  is the first updated row (undefined when no row has this id).
\<close>

definition applyUpdate :: "string option \<Rightarrow> string option \<Rightarrow> withdrawalRequest \<Rightarrow> withdrawalRequest" where
  "applyUpdate st rv r =
     (case st of
        None \<Rightarrow> r\<lparr>reviewedBy := rv\<rparr>
      | Some s \<Rightarrow> r\<lparr>status := s, reviewedBy := rv\<rparr>)"

definition updateWithdrawalRequest ::
  "database \<Rightarrow> nat \<Rightarrow> string option \<Rightarrow> string option \<Rightarrow> database \<times> withdrawalRequest option" where
  "updateWithdrawalRequest d i st rv =
     (d\<lparr>withdrawalRequests :=
          map (\<lambda>r. if wr_id r = i then applyUpdate st rv r else r) (withdrawalRequests d)\<rparr>,
      map_option (applyUpdate st rv) (find (\<lambda>r. wr_id r = i) (withdrawalRequests d)))"

section \<open>The routes\<close>

text \<open>
  Each handler of \<open>registerRoutes\<close> is a function of the store, the authenticated
  caller (\<open>req.user.claims.sub\<close>) and the fields of the request body that its zod
  schema has parsed; it gives back the store it leaves behind and the response. A
  handler's \<open>catch\<close> answers 500 for anything thrown in the \<open>try\<close>; what was written
  before the throw stays written, since no handler opens a database transaction. The
  throws that are modelled are the reads of a field of a null join partner.
\<close>

datatype 'a response = Json 'a | Status nat string

subsection \<open>\<open>POST /api/withdrawal-requests\<close>\<close>


subsection \<open>\<open>PATCH /api/withdrawal-requests/:id\<close>\<close>

text \<open>
  The handler first writes the update, then, for the status \<open>approved\<close>, looks the
  request up among the pending requests as they are after that write, and deducts only
  if it finds it there.
\<close>

definition deductApproved ::
  "database \<Rightarrow> string \<Rightarrow> withdrawalRequest \<times> user option \<times> account option \<Rightarrow> database option" where
  "deductApproved d caller row =
     (case row of (originalRequest, joinedUser, joinedAccount) \<Rightarrow>
        (case joinedAccount of
           None \<Rightarrow> None
         | Some acct \<Rightarrow>
             (let currentBalance = parseFloat (balance acct);
                  withdrawalAmount = parseFloat (wr_amount originalRequest);
                  newBalance = toFixed2 (js_sub currentBalance withdrawalAmount)
              in case joinedUser of
                   None \<Rightarrow> None
                 | Some u \<Rightarrow>
                     Some (fst (createTransaction (updateAccountBalance d (uid u) newBalance)
                                  (acc_id acct) ''withdrawal'' (CHR ''-'' # wr_amount originalRequest)
                                  (''Withdrawal: '' @ reason originalRequest) caller)))))"

definition patch_withdrawal_requests ::
  "database \<Rightarrow> string \<Rightarrow> nat \<Rightarrow> string option \<Rightarrow> database \<times> withdrawalRequest option response" where
  "patch_withdrawal_requests d caller requestId st =
     (case getUser d caller of
        None \<Rightarrow> (d, Status 403 ''Only teachers can approve/deny requests'')
      | Some u \<Rightarrow>
          if role u \<noteq> ''teacher''
          then (d, Status 403 ''Only teachers can approve/deny requests'')
          else
            (let (d1, updatedRequest) = updateWithdrawalRequest d requestId st (Some caller)
             in if st = Some ''approved'' then
                  (case find (\<lambda>row. wr_id (fst row) = requestId) (getPendingWithdrawalRequests d1) of
                     None \<Rightarrow> (d1, Json updatedRequest)
                   | Some row \<Rightarrow>
                       (case deductApproved d1 caller row of
                          None \<Rightarrow> (d1, Status 500 ''Failed to update withdrawal request'')
                        | Some d2 \<Rightarrow> (d2, Json updatedRequest)))
                else (d1, Json updatedRequest)))"

subsection \<open>\<open>POST /api/distribute-paycheck\<close>\<close>

record paycheckResult =
  pc_message :: string
  pc_transactions :: "transaction list"

text \<open>One turn of the loop over the students, for a student whose account is there.\<close>

definition paycheckStudent ::
  "string \<Rightarrow> string \<Rightarrow> user \<Rightarrow> account \<Rightarrow> database \<Rightarrow> database \<times> transaction" where
  "paycheckStudent caller am student acct d =
     (let currentBalance = parseFloat (balance acct);
          paycheckAmount = parseFloat am;
          newBalance = toFixed2 (js_add currentBalance paycheckAmount)
      in createTransaction (updateAccountBalance d (uid student) newBalance)
           (acc_id acct) ''paycheck'' am ''Weekly Paycheck'' caller)"

text \<open>
  The loop runs over the rows read before it started. A row with no account throws on
  \<open>student.account.balance\<close>: the loop ends there (\<open>None\<close>) with the earlier students
  already paid.
\<close>

fun paycheckLoop ::
  "string \<Rightarrow> string \<Rightarrow> (user \<times> account option) list \<Rightarrow> database \<Rightarrow> transaction list
     \<Rightarrow> database \<times> transaction list option" where
  "paycheckLoop caller am [] d txs = (d, Some txs)"
| "paycheckLoop caller am ((student, None) # rest) d txs = (d, None)"
| "paycheckLoop caller am ((student, Some acct) # rest) d txs =
     (let (d1, t) = paycheckStudent caller am student acct d
      in paycheckLoop caller am rest d1 (txs @ [t]))"

definition post_distribute_paycheck ::
  "database \<Rightarrow> string \<Rightarrow> string \<Rightarrow> database \<times> paycheckResult response" where
  "post_distribute_paycheck d caller am =
     (case getUser d caller of
        None \<Rightarrow> (d, Status 403 ''Only teachers can distribute paychecks'')
      | Some u \<Rightarrow>
          if role u \<noteq> ''teacher''
          then (d, Status 403 ''Only teachers can distribute paychecks'')
          else
            (let students = getAllStudents d
             in case paycheckLoop caller am students d [] of
                  (d1, None) \<Rightarrow> (d1, Status 500 ''Failed to distribute paycheck'')
                | (d1, Some txs) \<Rightarrow>
                    (d1, Json \<lparr>pc_message = ''Paycheck of $'' @ am @ '' distributed to ''
                                   @ showNat (length students) @ '' students'',
                                 pc_transactions = txs\<rparr>)))"

subsection \<open>\<open>POST /api/adjust-balance\<close>\<close>

record adjustResult =
  adj_message :: string
  adj_transaction :: transaction

datatype adjustKind = Add | Subtract

definition post_adjust_balance ::
  "database \<Rightarrow> string \<Rightarrow> string \<Rightarrow> string \<Rightarrow> string \<Rightarrow> adjustKind
     \<Rightarrow> database \<times> adjustResult response" where
  "post_adjust_balance d caller studentId am de kind =
     (case getUser d caller of
        None \<Rightarrow> (d, Status 403 ''Only teachers can adjust balances'')
      | Some u \<Rightarrow>
          if role u \<noteq> ''teacher''
          then (d, Status 403 ''Only teachers can adjust balances'')
          else
            (case getUser d studentId of
               None \<Rightarrow> (d, Status 404 ''Student not found'')
             | Some student \<Rightarrow>
                 if role student \<noteq> ''student''
                 then (d, Status 404 ''Student not found'')
                 else
                   (case getAccount d studentId of
                      None \<Rightarrow> (d, Status 404 ''Student account not found'')
                    | Some acct \<Rightarrow>
                        (let currentBalance = parseFloat (balance acct);
                             adjustmentAmount = parseFloat am;
                             newBalance =
                               (if kind = Add
                                then toFixed2 (js_add currentBalance adjustmentAmount)
                                else toFixed2 (js_sub currentBalance adjustmentAmount))
                         in if js_lt (parseFloat newBalance) (Fin 0)
                            then (d, Status 400 ''Balance cannot be negative'')
                            else
                              (let (d2, t) =
                                     createTransaction (updateAccountBalance d studentId newBalance)
                                       (acc_id acct)
                                       (if kind = Add then ''bonus'' else ''withdrawal'')
                                       (if kind = Add then am else CHR ''-'' # am)
                                       de caller
                               in (d2, Json \<lparr>adj_message = ''Balance adjusted successfully'',
                                             adj_transaction = t\<rparr>))))))"

subsection \<open>\<open>POST /api/collect-rent\<close>\<close>

record rentResult =
  rent_message :: string
  rent_transactions :: "transaction list"
  studentsAffected :: nat

text \<open>
  One turn of the loop, for a student whose account is there. The balance is the one of
  the row read before the loop started.
\<close>

definition rentStudent ::
  "string \<Rightarrow> string \<Rightarrow> user \<Rightarrow> account \<Rightarrow> database \<times> transaction list \<times> nat
     \<Rightarrow> database \<times> transaction list \<times> nat" where
  "rentStudent caller am student acct s =
     (case s of (d, txs, affected) \<Rightarrow>
        (let currentBalance = parseFloat (balance acct);
             rentAmount = parseFloat am;
             newBalance = toFixed2 (Math_max (Fin 0) (js_sub currentBalance rentAmount))
         in if js_gt currentBalance (Fin 0) then
              (let d1 = updateAccountBalance d (uid student) newBalance;
                   actualDeduction = js_sub currentBalance (parseFloat newBalance)
               in if js_gt actualDeduction (Fin 0) then
                    (let (d2, t) = createTransaction d1 (acc_id acct) ''rent''
                                     (CHR ''-'' # toFixed2 actualDeduction) ''Monthly Rent'' caller
                     in (d2, txs @ [t], Suc affected))
                  else (d1, txs, affected))
            else (d, txs, affected)))"

fun rentLoop ::
  "string \<Rightarrow> string \<Rightarrow> (user \<times> account option) list \<Rightarrow> database \<times> transaction list \<times> nat
     \<Rightarrow> database \<times> (transaction list \<times> nat) option" where
  "rentLoop caller am [] s = (fst s, Some (snd s))"
| "rentLoop caller am ((student, None) # rest) s = (fst s, None)"
| "rentLoop caller am ((student, Some acct) # rest) s =
     rentLoop caller am rest (rentStudent caller am student acct s)"

definition post_collect_rent ::
  "database \<Rightarrow> string \<Rightarrow> string \<Rightarrow> database \<times> rentResult response" where
  "post_collect_rent d caller am =
     (case getUser d caller of
        None \<Rightarrow> (d, Status 403 ''Only teachers can collect rent'')
      | Some u \<Rightarrow>
          if role u \<noteq> ''teacher''
          then (d, Status 403 ''Only teachers can collect rent'')
          else
            (case rentLoop caller am (getAllStudents d) (d, [], 0) of
               (d1, None) \<Rightarrow> (d1, Status 500 ''Failed to collect rent'')
             | (d1, Some (txs, affected)) \<Rightarrow>
                 (d1, Json \<lparr>rent_message = ''Monthly rent collected from '' @ showNat affected
                                @ '' students'',
                              rent_transactions = txs,
                              studentsAffected = affected\<rparr>)))"

section \<open>The forms\<close>

text \<open>
  The teacher's dialogs (\<open>PaycheckModal\<close>, \<open>RentCollectionModal\<close>,
  \<open>AdjustBalanceModal\<close>) check what was typed before they send anything: a
  \<open>handleSubmit\<close> either shows a toast (given here by its title) and returns, or hands
  the request to its mutation, which posts it to the route.
\<close>

datatype 'a submitted = Toast string | Mutate 'a

definition PaycheckModal_handleSubmit :: "string \<Rightarrow> string submitted" where
  "PaycheckModal_handleSubmit am =
     (if am = [] then Toast ''Missing Amount''
      else
        (let amountNum = parseFloat am
         in if isNaN amountNum \<or> js_le amountNum (Fin 0) then Toast ''Invalid Amount''
            else Mutate (toFixed2 amountNum)))"

definition RentCollectionModal_handleSubmit :: "string \<Rightarrow> string submitted" where
  "RentCollectionModal_handleSubmit rentAmount =
     (if rentAmount = [] then Toast ''Missing Amount''
      else
        (let amountNum = parseFloat rentAmount
         in if isNaN amountNum \<or> js_le amountNum (Fin 0) then Toast ''Invalid Amount''
            else Mutate (toFixed2 amountNum)))"

record studentProp =
  student_id :: string
  student_balance :: string

record adjustRequest =
  req_studentId :: string
  req_amount :: string
  req_description :: string
  req_kind :: adjustKind

definition AdjustBalanceModal_handleSubmit ::
  "studentProp option \<Rightarrow> adjustKind \<Rightarrow> string \<Rightarrow> string \<Rightarrow> adjustRequest submitted" where
  "AdjustBalanceModal_handleSubmit student kind am de =
     (case student of
        None \<Rightarrow> Toast ''Missing Information''
      | Some st \<Rightarrow>
          if am = [] \<or> de = [] then Toast ''Missing Information''
          else
            (let amountNum = parseFloat am
             in if isNaN amountNum \<or> js_le amountNum (Fin 0) then Toast ''Invalid Amount''
                else if kind = Subtract \<and> js_gt amountNum (parseFloat (student_balance st))
                then Toast ''Insufficient Balance''
                else Mutate \<lparr>req_studentId = student_id st, req_amount = toFixed2 amountNum,
                              req_description = de, req_kind = kind\<rparr>))"

text \<open>A dialog's submit, followed by the route its mutation posts to.\<close>

definition PaycheckModal_submit ::
  "database \<Rightarrow> string \<Rightarrow> string \<Rightarrow> database \<times> paycheckResult response submitted" where
  "PaycheckModal_submit d caller am =
     (case PaycheckModal_handleSubmit am of
        Toast t \<Rightarrow> (d, Toast t)
      | Mutate a \<Rightarrow> (case post_distribute_paycheck d caller a of (d1, r) \<Rightarrow> (d1, Mutate r)))"

definition RentCollectionModal_submit ::
  "database \<Rightarrow> string \<Rightarrow> string \<Rightarrow> database \<times> rentResult response submitted" where
  "RentCollectionModal_submit d caller am =
     (case RentCollectionModal_handleSubmit am of
        Toast t \<Rightarrow> (d, Toast t)
      | Mutate a \<Rightarrow> (case post_collect_rent d caller a of (d1, r) \<Rightarrow> (d1, Mutate r)))"

definition AdjustBalanceModal_submit ::
  "database \<Rightarrow> string \<Rightarrow> studentProp option \<Rightarrow> adjustKind \<Rightarrow> string \<Rightarrow> string
     \<Rightarrow> database \<times> adjustResult response submitted" where
  "AdjustBalanceModal_submit d caller student kind am de =
     (case AdjustBalanceModal_handleSubmit student kind am de of
        Toast t \<Rightarrow> (d, Toast t)
      | Mutate q \<Rightarrow>
          (case post_adjust_balance d caller (req_studentId q) (req_amount q)
                  (req_description q) (req_kind q) of
             (d1, r) \<Rightarrow> (d1, Mutate r)))"

section \<open>Money strings and the ledger\<close>



definition money :: "int \<Rightarrow> string" where
  "money c = toFixed2 (Fin (of_int c / 100))"


text \<open>The sum of the amounts of an account's transactions, and the reconciliation of
  every account's balance with it.\<close>

definition ledgerSum :: "database \<Rightarrow> nat \<Rightarrow> number" where
  "ledgerSum d a =
     foldl js_add (Fin 0) (map (\<lambda>t. parseFloat (amount t)) (filter (\<lambda>t. accountId t = a) (transactions d)))"







definition newRentBalance :: "string \<Rightarrow> account \<Rightarrow> string" where
  "newRentBalance am a = toFixed2 (Math_max (Fin 0) (js_sub (parseFloat (balance a)) (parseFloat am)))"

definition actualDeduction :: "string \<Rightarrow> account \<Rightarrow> number" where
  "actualDeduction am a = js_sub (parseFloat (balance a)) (parseFloat (newRentBalance am a))"

definition charged :: "string \<Rightarrow> account \<Rightarrow> bool" where
  "charged am a = (js_gt (parseFloat (balance a)) (Fin 0) \<and> js_gt (actualDeduction am a) (Fin 0))"






section \<open>A classroom\<close>

text \<open>
  A store to run the routes on: a teacher, Alice with the given balance (paid to her as
  one paycheck) and Bob with nothing; three withdrawal requests of Alice's, two pending
  and one denied.
\<close>

definition classroom :: "string \<Rightarrow> database" where
  "classroom bal =
     \<lparr>users = [\<lparr>uid = ''teacher1'', role = ''teacher''\<rparr>,
               \<lparr>uid = ''alice'', role = ''student''\<rparr>,
               \<lparr>uid = ''bob'', role = ''student''\<rparr>],
      accounts = [\<lparr>acc_id = 1, userId = ''alice'', balance = bal\<rparr>,
                  \<lparr>acc_id = 2, userId = ''bob'', balance = ''0.00''\<rparr>],
      transactions = [\<lparr>tx_id = 1, accountId = 1, tx_type = ''paycheck'', amount = bal,
                        description = ''Weekly Paycheck'', createdBy = ''teacher1''\<rparr>],
      withdrawalRequests =
        [\<lparr>wr_id = 1, wr_accountId = 1, wr_amount = ''25.00'', reason = ''book fair'',
           status = ''pending'', reviewedBy = None\<rparr>,
         \<lparr>wr_id = 2, wr_accountId = 1, wr_amount = ''50.00'', reason = ''field trip'',
           status = ''pending'', reviewedBy = None\<rparr>,
         \<lparr>wr_id = 3, wr_accountId = 1, wr_amount = ''5.00'', reason = ''snack'',
           status = ''denied'', reviewedBy = Some ''teacher1''\<rparr>],
      transactions_id_seq = 1,
      withdrawal_requests_id_seq = 3\<rparr>"

section \<open>Reading and printing money\<close>

lemma isDigit_digitChar: "n < 10 \<Longrightarrow> isDigit (digitChar n)"
  by (simp add: isDigit_def digitChar_def)

lemma digitVal_digitChar: "n < 10 \<Longrightarrow> digitVal (digitChar n) = n"
  by (simp add: digitVal_def digitChar_def)

lemma showNat_digits: "c \<in> set (showNat n) \<Longrightarrow> isDigit c"
proof (induction n arbitrary: c rule: showNat.induct)
  case (1 n)
  show ?case
  proof (cases "n < 10")
    case True
    with "1.prems" show ?thesis
      by (simp add: showNat.simps [of n] isDigit_digitChar)
  next
    case False
    with "1.prems" "1.IH" show ?thesis
      by (auto simp: showNat.simps [of n] isDigit_digitChar)
  qed
qed

lemma showNat_nonempty: "showNat n \<noteq> []"
  by (subst showNat.simps) simp

lemma digitsVal_snoc: "digitsVal (ds @ [c]) = 10 * digitsVal ds + digitVal c"
  by (simp add: digitsVal_def)

lemma digitsVal_showNat: "digitsVal (showNat n) = n"
proof (induction n rule: showNat.induct)
  case (1 n)
  show ?case
  proof (cases "n < 10")
    case True
    then show ?thesis
      by (simp add: showNat.simps [of n] digitsVal_def digitVal_digitChar)
  next
    case False
    with "1.IH" show ?thesis
      by (simp add: showNat.simps [of n] digitsVal_snoc digitVal_digitChar)
  qed
qed

lemma takeWhile_digits_stop:
  "(\<And>c. c \<in> set ds \<Longrightarrow> isDigit c) \<Longrightarrow> \<not> isDigit x \<Longrightarrow> takeWhile isDigit (ds @ x # r) = ds"
  by (induction ds) auto

lemma dropWhile_digits_stop:
  "(\<And>c. c \<in> set ds \<Longrightarrow> isDigit c) \<Longrightarrow> \<not> isDigit x \<Longrightarrow> dropWhile isDigit (ds @ x # r) = x # r"
  by (induction ds) auto

lemma dot_not_digit: "\<not> isDigit CHR ''.''"
  by (simp add: isDigit_def)

lemma two_digits_val:
  "digitsVal [digitChar (n mod 100 div 10), digitChar (n mod 10)] = n mod 100"
proof -
  have lt: "n mod 100 div 10 < 10" "n mod 10 < 10" by simp_all
  have "digitsVal [digitChar (n mod 100 div 10), digitChar (n mod 10)]
          = 10 * (n mod 100 div 10) + n mod 10"
    using lt by (simp add: digitsVal_def digitVal_digitChar)
  also have "\<dots> = 10 * (n mod 100 div 10) + n mod 100 mod 10"
    by (simp add: mod_mod_cancel)
  also have "\<dots> = n mod 100"
    by (rule mult_div_mod_eq)
  finally show ?thesis .
qed

lemma split_hundred: "(of_nat (n div 100) :: rat) + of_nat (n mod 100) / 100 = of_nat n / 100"
proof -
  have "(of_nat n :: rat) = of_nat (100 * (n div 100) + n mod 100)" by simp
  also have "\<dots> = 100 * of_nat (n div 100) + of_nat (n mod 100)"
    by (simp only: of_nat_add of_nat_mult of_nat_numeral)
  finally show ?thesis by simp
qed

lemma unsignedLiteral_fixed2: "unsignedLiteral (fixed2 n) = Fin (of_nat n / 100)"
proof -
  let ?d1 = "digitChar (n mod 100 div 10)" and ?d2 = "digitChar (n mod 10)"
  have lt: "n mod 100 div 10 < 10" "n mod 10 < 10" by simp_all
  have d: "isDigit ?d1" "isDigit ?d2"
    using lt by (simp_all add: isDigit_digitChar)
  have tw: "takeWhile isDigit (fixed2 n) = showNat (n div 100)"
    unfolding fixed2_def by (rule takeWhile_digits_stop) (auto simp: showNat_digits dot_not_digit)
  have dw: "dropWhile isDigit (fixed2 n) = [CHR ''.'', ?d1, ?d2]"
    unfolding fixed2_def by (rule dropWhile_digits_stop) (auto simp: showNat_digits dot_not_digit)
  have "unsignedLiteral (fixed2 n)
          = Fin (of_nat (n div 100) + of_nat (digitsVal [?d1, ?d2]) / 100)"
    using d by (simp add: unsignedLiteral_def tw dw showNat_nonempty exponentPart_def digitsVal_showNat)
  then show ?thesis
    by (simp only: two_digits_val split_hundred)
qed

lemma digit_not_special:
  assumes "isDigit c"
  shows "\<not> isWhiteSpace c" and "c \<noteq> CHR ''-''" and "c \<noteq> CHR ''+''" and "c \<noteq> CHR ''I''"
  using assms by (auto simp: isDigit_def isWhiteSpace_def)

lemma fixed2_head: "\<exists>c r. fixed2 n = c # r \<and> isDigit c"
proof (cases "showNat (n div 100)")
  case Nil
  then show ?thesis by (simp add: showNat_nonempty)
next
  case (Cons c r)
  then have "c \<in> set (showNat (n div 100))" by simp
  then have "isDigit c" by (rule showNat_digits)
  with Cons show ?thesis by (simp add: fixed2_def)
qed

lemma signedLiteral_digit: "isDigit c \<Longrightarrow> signedLiteral (c # r) = unsignedLiteral (c # r)"
  by (auto simp: signedLiteral_def dest: digit_not_special(4))

lemma parseFloat_digit: "isDigit c \<Longrightarrow> parseFloat (c # r) = unsignedLiteral (c # r)"
  by (simp add: parseFloat_def digit_not_special signedLiteral_digit)

lemma parseFloat_minus_digit:
  "isDigit c \<Longrightarrow> parseFloat (CHR ''-'' # c # r) = js_neg (unsignedLiteral (c # r))"
  by (simp add: parseFloat_def isWhiteSpace_def signedLiteral_digit)

lemma parseFloat_fixed2: "parseFloat (fixed2 n) = Fin (of_nat n / 100)"
proof -
  obtain c r where "fixed2 n = c # r" "isDigit c" using fixed2_head by blast
  then show ?thesis using unsignedLiteral_fixed2 [of n] by (simp add: parseFloat_digit)
qed

lemma parseFloat_minus_fixed2: "parseFloat (CHR ''-'' # fixed2 n) = Fin (- (of_nat n / 100))"
proof -
  obtain c r where "fixed2 n = c # r" "isDigit c" using fixed2_head by blast
  then show ?thesis using unsignedLiteral_fixed2 [of n] by (simp add: parseFloat_minus_digit)
qed

lemma hundredths_cents: "0 \<le> c \<Longrightarrow> hundredths (of_int c / 100) = nat c"
proof -
  have "\<lfloor>(of_int c :: rat) + 1 / 2\<rfloor> = c" by linarith
  then show ?thesis by (simp add: hundredths_def)
qed

lemma money_eq: "money c = (if c < 0 then CHR ''-'' # fixed2 (nat (- c)) else fixed2 (nat c))"
proof (cases "c < 0")
  case True
  then have "hundredths (- (of_int c / 100)) = nat (- c)"
    using hundredths_cents [of "- c"] by simp
  with True show ?thesis by (simp add: money_def)
next
  case False
  then show ?thesis by (simp add: money_def hundredths_cents)
qed

lemma parseFloat_money: "parseFloat (money c) = Fin (of_int c / 100)"
  by (simp add: money_eq parseFloat_fixed2 parseFloat_minus_fixed2)





lemma money_inject: "money a = money b \<Longrightarrow> a = b"
proof -
  assume "money a = money b"
  then have "parseFloat (money a) = parseFloat (money b)" by simp
  then show "a = b" by (simp add: parseFloat_money)
qed











section \<open>The store's operations and the student rows\<close>

lemma updateAccountBalance_simps:
  "accounts (updateAccountBalance d i nb) = map (\<lambda>a. if userId a = i then a\<lparr>balance := nb\<rparr> else a) (accounts d)"
  "users (updateAccountBalance d i nb) = users d"
  "transactions (updateAccountBalance d i nb) = transactions d"
  "transactions_id_seq (updateAccountBalance d i nb) = transactions_id_seq d"
  "withdrawalRequests (updateAccountBalance d i nb) = withdrawalRequests d"
  by (simp_all add: updateAccountBalance_def)

lemma createTransaction_simps:
  "accounts (fst (createTransaction d acc ty am de c)) = accounts d"
  "users (fst (createTransaction d acc ty am de c)) = users d"
  "transactions (fst (createTransaction d acc ty am de c))
     = transactions d @ [snd (createTransaction d acc ty am de c)]"
  "snd (createTransaction d acc ty am de c)
     = \<lparr>tx_id = Suc (transactions_id_seq d), accountId = acc, tx_type = ty, amount = am,
        description = de, createdBy = c\<rparr>"
  by (simp_all add: createTransaction_def Let_def)












section \<open>Reviewing a withdrawal request\<close>

text \<open>
  Once the update has set the status of every request of id \<open>i\<close> to \<open>approved\<close>,
  none of the pending requests has this id: the lookup of the handler finds nothing, and
  the branch that deducts is never taken.
\<close>

lemma fst_pendingRow: "fst (pendingRow d r) = r"
  by (simp add: pendingRow_def split: option.split)

lemma applyUpdate_id: "wr_id (applyUpdate st rv r) = wr_id r"
  by (simp add: applyUpdate_def split: option.split)

lemma applyUpdate_status: "status (applyUpdate (Some s) rv r) = s"
  by (simp add: applyUpdate_def)


lemma withdrawalRequests_update:
  "withdrawalRequests (fst (updateWithdrawalRequest d i st rv)) =
     map (\<lambda>r. if wr_id r = i then applyUpdate st rv r else r) (withdrawalRequests d)"
  by (simp add: updateWithdrawalRequest_def)

lemma no_pending_after_approval:
  "find (\<lambda>row. wr_id (fst row) = i)
     (getPendingWithdrawalRequests (fst (updateWithdrawalRequest d i (Some ''approved'') rv))) = None"
proof -
  let ?d1 = "fst (updateWithdrawalRequest d i (Some ''approved'') rv)"
  have "wr_id (fst row) \<noteq> i" if "row \<in> set (getPendingWithdrawalRequests ?d1)" for row
  proof -
    from that obtain r where r: "r \<in> set (withdrawalRequests ?d1)" "status r = ''pending''"
      and row: "row = pendingRow ?d1 r"
      unfolding getPendingWithdrawalRequests_def by auto
    from r(1) have "r \<in> (\<lambda>r. if wr_id r = i then applyUpdate (Some ''approved'') rv r else r)
                        ` set (withdrawalRequests d)"
      by (simp add: withdrawalRequests_update)
    then obtain r0 where r0: "r = (if wr_id r0 = i then applyUpdate (Some ''approved'') rv r0 else r0)"
      by blast
    show ?thesis
    proof (cases "wr_id r0 = i")
      case True
      with r0 have "status r = ''approved''" by (simp add: applyUpdate_status)
      with r(2) show ?thesis by simp
    next
      case False
      with r0 row show ?thesis by (simp add: fst_pendingRow)
    qed
  qed
  then show ?thesis unfolding find_None_iff by blast
qed

lemma approval_writes_status_only:
  assumes "getUser d caller = Some u" and "role u = ''teacher''"
  shows "patch_withdrawal_requests d caller i (Some ''approved'') =
     (fst (updateWithdrawalRequest d i (Some ''approved'') (Some caller)),
      Json (snd (updateWithdrawalRequest d i (Some ''approved'') (Some caller))))"
proof -
  obtain d1 upd where eq: "updateWithdrawalRequest d i (Some ''approved'') (Some caller) = (d1, upd)"
    by (cases "updateWithdrawalRequest d i (Some ''approved'') (Some caller)")
  from no_pending_after_approval [of i d "Some caller"] eq
  have "find (\<lambda>row. wr_id (fst row) = i) (getPendingWithdrawalRequests d1) = None"
    by simp
  with assms eq show ?thesis
    by (simp add: patch_withdrawal_requests_def)
qed

lemma update_keeps_ledger:
  "accounts (fst (updateWithdrawalRequest d i st rv)) = accounts d"
  "transactions (fst (updateWithdrawalRequest d i st rv)) = transactions d"
  "users (fst (updateWithdrawalRequest d i st rv)) = users d"
  by (simp_all add: updateWithdrawalRequest_def)

text \<open>
  C1. The claim: approving a pending request succeeds exactly when the amount is within
  the balance, then takes the amount off the balance and appends one withdrawal
  transaction of the negated amount (request 25.00 on balance 25.00 gives balance 0.00
  and a transaction of -25.00). The code, at that very input: the teacher approves
  Alice's request 1 of 25.00 on her balance of 25.00; the request is marked approved,
  the balance stays 25.00 and no transaction is appended.
\<close>

theorem approved_request_is_not_deducted:
  "patch_withdrawal_requests (classroom ''25.00'') ''teacher1'' 1 (Some ''approved'') =
     ((classroom ''25.00'')\<lparr>withdrawalRequests :=
         [\<lparr>wr_id = 1, wr_accountId = 1, wr_amount = ''25.00'', reason = ''book fair'',
            status = ''approved'', reviewedBy = Some ''teacher1''\<rparr>,
          \<lparr>wr_id = 2, wr_accountId = 1, wr_amount = ''50.00'', reason = ''field trip'',
            status = ''pending'', reviewedBy = None\<rparr>,
          \<lparr>wr_id = 3, wr_accountId = 1, wr_amount = ''5.00'', reason = ''snack'',
            status = ''denied'', reviewedBy = Some ''teacher1''\<rparr>]\<rparr>,
      Json (Some \<lparr>wr_id = 1, wr_accountId = 1, wr_amount = ''25.00'', reason = ''book fair'',
                   status = ''approved'', reviewedBy = Some ''teacher1''\<rparr>))"
  by code_simp

text \<open>
  C3, as the claim states it, fails: a review of a request that is no longer pending is
  not refused. Request 1 is approved and then approved again, and request 1 is approved
  and then denied: each second review is answered with the row as it has just been
  rewritten.
\<close>

theorem second_review_counterexample:
  "snd (patch_withdrawal_requests
          (fst (patch_withdrawal_requests (classroom ''25.00'') ''teacher1'' 1 (Some ''approved'')))
          ''teacher1'' 1 (Some ''approved''))
     = Json (Some \<lparr>wr_id = 1, wr_accountId = 1, wr_amount = ''25.00'', reason = ''book fair'',
                    status = ''approved'', reviewedBy = Some ''teacher1''\<rparr>)
   \<and> snd (patch_withdrawal_requests
          (fst (patch_withdrawal_requests (classroom ''25.00'') ''teacher1'' 1 (Some ''approved'')))
          ''teacher1'' 1 (Some ''denied''))
     = Json (Some \<lparr>wr_id = 1, wr_accountId = 1, wr_amount = ''25.00'', reason = ''book fair'',
                    status = ''denied'', reviewedBy = Some ''teacher1''\<rparr>)"
  by code_simp

text \<open>
  C3, amended: an approval of a request that is not pending (any more) is answered like
  any other review, with the updated row, and it deducts nothing: the accounts and the
  transactions are as they were.
\<close>

theorem second_approval_does_not_deduct:
  assumes "getUser d caller = Some u" and "role u = ''teacher''"
    and "\<not> list_ex (\<lambda>r. wr_id r = i \<and> status r = ''pending'') (withdrawalRequests d)"
  shows "\<exists>d1 r. patch_withdrawal_requests d caller i (Some ''approved'') = (d1, Json r)
           \<and> accounts d1 = accounts d \<and> transactions d1 = transactions d"
  using approval_writes_status_only [OF assms(1,2), of i]
  by (simp add: update_keeps_ledger)

theorem second_approval_does_not_deduct_witness:
  "getUser (classroom ''25.00'') ''teacher1'' = Some \<lparr>uid = ''teacher1'', role = ''teacher''\<rparr>
   \<and> \<not> list_ex (\<lambda>r. wr_id r = 3 \<and> status r = ''pending'') (withdrawalRequests (classroom ''25.00''))
   \<and> (\<exists>d1 r. patch_withdrawal_requests (classroom ''25.00'') ''teacher1'' 3 (Some ''approved'') = (d1, Json r)
           \<and> accounts d1 = accounts (classroom ''25.00'')
           \<and> transactions d1 = transactions (classroom ''25.00''))"
proof -
  have u: "getUser (classroom ''25.00'') ''teacher1'' = Some \<lparr>uid = ''teacher1'', role = ''teacher''\<rparr>"
    by code_simp
  have r: "role \<lparr>uid = ''teacher1'', role = ''teacher''\<rparr> = ''teacher''"
    by simp
  have n: "\<not> list_ex (\<lambda>r. wr_id r = 3 \<and> status r = ''pending'') (withdrawalRequests (classroom ''25.00''))"
    by code_simp
  from second_approval_does_not_deduct [OF u r n] u n show ?thesis
    by blast
qed

section \<open>Asking for a withdrawal\<close>



section \<open>Adjusting a balance\<close>



section \<open>Where the amount is checked\<close>

text \<open>
  C8, as the claim states it, fails: the routes do not check the amount. A paycheck of
  \<open>-5.00\<close> posted to the route is carried out: both balances are lowered and two
  transactions are appended.
\<close>

theorem unvalidated_amount_counterexample:
  "post_distribute_paycheck (classroom ''30.00'') ''teacher1'' ''-5.00'' =
     ((classroom ''30.00'')\<lparr>
        accounts := [\<lparr>acc_id = 1, userId = ''alice'', balance = ''25.00''\<rparr>,
                     \<lparr>acc_id = 2, userId = ''bob'', balance = ''-5.00''\<rparr>],
        transactions :=
          [\<lparr>tx_id = 1, accountId = 1, tx_type = ''paycheck'', amount = ''30.00'',
             description = ''Weekly Paycheck'', createdBy = ''teacher1''\<rparr>,
           \<lparr>tx_id = 2, accountId = 1, tx_type = ''paycheck'', amount = ''-5.00'',
             description = ''Weekly Paycheck'', createdBy = ''teacher1''\<rparr>,
           \<lparr>tx_id = 3, accountId = 2, tx_type = ''paycheck'', amount = ''-5.00'',
             description = ''Weekly Paycheck'', createdBy = ''teacher1''\<rparr>],
        transactions_id_seq := 3\<rparr>,
      Json \<lparr>pc_message = ''Paycheck of $-5.00 distributed to 2 students'',
             pc_transactions =
               [\<lparr>tx_id = 2, accountId = 1, tx_type = ''paycheck'', amount = ''-5.00'',
                  description = ''Weekly Paycheck'', createdBy = ''teacher1''\<rparr>,
                \<lparr>tx_id = 3, accountId = 2, tx_type = ''paycheck'', amount = ''-5.00'',
                  description = ''Weekly Paycheck'', createdBy = ''teacher1''\<rparr>]\<rparr>)"
  by code_simp

text \<open>
  C8, amended: the check is the dialog's. For each of the three dialogs (paycheck, rent,
  adjustment), an amount that does not parse or is not above zero ends the submit with a
  toast; nothing is posted and the store is untouched.
\<close>

theorem forms_reject_invalid_amounts:
  assumes "isNaN (parseFloat am) \<or> js_le (parseFloat am) (Fin 0)"
  shows "PaycheckModal_submit d caller am
           = (d, Toast (if am = [] then ''Missing Amount'' else ''Invalid Amount''))
       \<and> RentCollectionModal_submit d caller am
           = (d, Toast (if am = [] then ''Missing Amount'' else ''Invalid Amount''))
       \<and> AdjustBalanceModal_submit d caller student kind am de
           = (d, Toast (if student = None \<or> am = [] \<or> de = [] then ''Missing Information''
                        else ''Invalid Amount''))"
  using assms
  by (auto simp: PaycheckModal_submit_def PaycheckModal_handleSubmit_def
      RentCollectionModal_submit_def RentCollectionModal_handleSubmit_def
      AdjustBalanceModal_submit_def AdjustBalanceModal_handleSubmit_def
      split: option.split)

theorem forms_reject_invalid_amounts_witness:
  "(isNaN (parseFloat ''-5.00'') \<or> js_le (parseFloat ''-5.00'') (Fin 0))
   \<and> PaycheckModal_submit (classroom ''30.00'') ''teacher1'' ''-5.00''
        = (classroom ''30.00'', Toast ''Invalid Amount'')
   \<and> RentCollectionModal_submit (classroom ''30.00'') ''teacher1'' ''-5.00''
        = (classroom ''30.00'', Toast ''Invalid Amount'')
   \<and> AdjustBalanceModal_submit (classroom ''30.00'') ''teacher1''
        (Some \<lparr>student_id = ''alice'', student_balance = ''30.00''\<rparr>) Add ''-5.00'' ''gift''
        = (classroom ''30.00'', Toast ''Invalid Amount'')"
proof -
  have h: "isNaN (parseFloat ''-5.00'') \<or> js_le (parseFloat ''-5.00'') (Fin 0)"
    by code_simp
  from forms_reject_invalid_amounts [OF h, of "classroom ''30.00''" "''teacher1''"
      "Some \<lparr>student_id = ''alice'', student_balance = ''30.00''\<rparr>" Add "''gift''"] h
  show ?thesis by simp
qed

section \<open>Distributing a paycheck\<close>






section \<open>Collecting rent\<close>

lemma rentStudent_eq:
  "rentStudent c am u a (d, txs, n) =
     (if js_gt (parseFloat (balance a)) (Fin 0) then
        (if js_gt (actualDeduction am a) (Fin 0) then
           (fst (createTransaction (updateAccountBalance d (uid u) (newRentBalance am a))
                   (acc_id a) ''rent'' (CHR ''-'' # toFixed2 (actualDeduction am a)) ''Monthly Rent'' c),
            txs @ [snd (createTransaction (updateAccountBalance d (uid u) (newRentBalance am a))
                   (acc_id a) ''rent'' (CHR ''-'' # toFixed2 (actualDeduction am a)) ''Monthly Rent'' c)],
            Suc n)
         else (updateAccountBalance d (uid u) (newRentBalance am a), txs, n))
      else (d, txs, n))"
  by (simp add: rentStudent_def Let_def newRentBalance_def actualDeduction_def split: prod.split)

lemma rentStudent_effect:
  assumes "rentStudent c am u a (d, txs, n) = (d1, txs1, n1)"
  shows "accounts d1 = (case (if js_gt (parseFloat (balance a)) (Fin 0)
                              then Some (newRentBalance am a) else None) of
                          None \<Rightarrow> accounts d
                        | Some nb \<Rightarrow> map (\<lambda>b. if userId b = uid u then b\<lparr>balance := nb\<rparr> else b)
                                      (accounts d))"
    and "users d1 = users d"
    and "\<exists>new. txs1 = txs @ new \<and> n1 = n + length new
           \<and> transactions d1 = transactions d @ new
           \<and> list_all2 (\<lambda>a t. accountId t = acc_id a \<and> tx_type t = ''rent''
                          \<and> amount t = CHR ''-'' # toFixed2 (actualDeduction am a))
                (filter (charged am) [a]) new"
proof -
  note eq = assms [unfolded rentStudent_eq]
  show "accounts d1 = (case (if js_gt (parseFloat (balance a)) (Fin 0)
                              then Some (newRentBalance am a) else None) of
                          None \<Rightarrow> accounts d
                        | Some nb \<Rightarrow> map (\<lambda>b. if userId b = uid u then b\<lparr>balance := nb\<rparr> else b)
                                      (accounts d))"
    using eq by (auto simp: createTransaction_simps updateAccountBalance_simps split: if_splits)
  show "users d1 = users d"
    using eq by (auto simp: createTransaction_simps updateAccountBalance_simps split: if_splits)
  show "\<exists>new. txs1 = txs @ new \<and> n1 = n + length new
           \<and> transactions d1 = transactions d @ new
           \<and> list_all2 (\<lambda>a t. accountId t = acc_id a \<and> tx_type t = ''rent''
                          \<and> amount t = CHR ''-'' # toFixed2 (actualDeduction am a))
                (filter (charged am) [a]) new"
  proof (cases "charged am a")
    case True
    let ?t = "snd (createTransaction (updateAccountBalance d (uid u) (newRentBalance am a))
                   (acc_id a) ''rent'' (CHR ''-'' # toFixed2 (actualDeduction am a)) ''Monthly Rent'' c)"
    from True eq have "txs1 = txs @ [?t]" "n1 = n + length [?t]"
      "transactions d1 = transactions d @ [?t]"
      by (auto simp: charged_def createTransaction_simps updateAccountBalance_simps)
    moreover have "list_all2 (\<lambda>a t. accountId t = acc_id a \<and> tx_type t = ''rent''
                          \<and> amount t = CHR ''-'' # toFixed2 (actualDeduction am a))
                (filter (charged am) [a]) [?t]"
      using True by (simp add: createTransaction_simps)
    ultimately show ?thesis by blast
  next
    case False
    with eq have "txs1 = txs @ []" "n1 = n + length ([] :: transaction list)"
      "transactions d1 = transactions d @ []"
      by (auto simp: charged_def updateAccountBalance_simps split: if_splits)
    moreover have "list_all2 (\<lambda>a t. accountId t = acc_id a \<and> tx_type t = ''rent''
                          \<and> amount t = CHR ''-'' # toFixed2 (actualDeduction am a))
                (filter (charged am) [a]) []"
      using False by simp
    ultimately show ?thesis by blast
  qed
qed

lemma rentLoop_all:
  "\<exists>d' new. rentLoop c am (map (\<lambda>p. (fst p, Some (snd p))) pairs) (d, txs, n)
               = (d', Some (txs @ new, n + length new))
     \<and> accounts d' = foldl (\<lambda>accs p. case (if js_gt (parseFloat (balance (snd p))) (Fin 0)
                                            then Some (newRentBalance am (snd p)) else None) of
                                        None \<Rightarrow> accs
                                      | Some nb \<Rightarrow> map (\<lambda>b. if userId b = uid (fst p)
                                                           then b\<lparr>balance := nb\<rparr> else b) accs)
                       (accounts d) pairs
     \<and> users d' = users d
     \<and> transactions d' = transactions d @ new
     \<and> list_all2 (\<lambda>a t. accountId t = acc_id a \<and> tx_type t = ''rent''
                    \<and> amount t = CHR ''-'' # toFixed2 (actualDeduction am a))
          (filter (charged am) (map snd pairs)) new"
proof (induction pairs arbitrary: d txs n)
  case Nil
  show ?case by simp
next
  case (Cons p pairs)
  obtain d1 txs1 n1 where step: "rentStudent c am (fst p) (snd p) (d, txs, n) = (d1, txs1, n1)"
    by (cases "rentStudent c am (fst p) (snd p) (d, txs, n)")
  from rentStudent_effect(3) [OF step] obtain new1 where
    n1: "txs1 = txs @ new1" "n1 = n + length new1" "transactions d1 = transactions d @ new1"
    "list_all2 (\<lambda>a t. accountId t = acc_id a \<and> tx_type t = ''rent''
                    \<and> amount t = CHR ''-'' # toFixed2 (actualDeduction am a))
          (filter (charged am) [snd p]) new1"
    by blast
  from Cons.IH [of d1 txs1 n1] obtain d' new2 where
    loop: "rentLoop c am (map (\<lambda>p. (fst p, Some (snd p))) pairs) (d1, txs1, n1)
               = (d', Some (txs1 @ new2, n1 + length new2))"
    and acc: "accounts d' = foldl (\<lambda>accs p. case (if js_gt (parseFloat (balance (snd p))) (Fin 0)
                                            then Some (newRentBalance am (snd p)) else None) of
                                        None \<Rightarrow> accs
                                      | Some nb \<Rightarrow> map (\<lambda>b. if userId b = uid (fst p)
                                                           then b\<lparr>balance := nb\<rparr> else b) accs)
                       (accounts d1) pairs"
    and usr: "users d' = users d1"
    and trs: "transactions d' = transactions d1 @ new2"
    and rel: "list_all2 (\<lambda>a t. accountId t = acc_id a \<and> tx_type t = ''rent''
                    \<and> amount t = CHR ''-'' # toFixed2 (actualDeduction am a))
          (filter (charged am) (map snd pairs)) new2"
    by blast
  have "rentLoop c am (map (\<lambda>p. (fst p, Some (snd p))) (p # pairs)) (d, txs, n)
               = (d', Some (txs @ (new1 @ new2), n + length (new1 @ new2)))"
    using step loop n1(1,2) by simp
  moreover have "accounts d' = foldl (\<lambda>accs p. case (if js_gt (parseFloat (balance (snd p))) (Fin 0)
                                            then Some (newRentBalance am (snd p)) else None) of
                                        None \<Rightarrow> accs
                                      | Some nb \<Rightarrow> map (\<lambda>b. if userId b = uid (fst p)
                                                           then b\<lparr>balance := nb\<rparr> else b) accs)
                       (accounts d) (p # pairs)"
    by (simp only: acc rentStudent_effect(1) [OF step] foldl_Cons)
  moreover have "users d' = users d"
    by (simp only: usr rentStudent_effect(2) [OF step])
  moreover have "transactions d' = transactions d @ (new1 @ new2)"
    by (simp add: trs n1(3))
  moreover have "list_all2 (\<lambda>a t. accountId t = acc_id a \<and> tx_type t = ''rent''
                    \<and> amount t = CHR ''-'' # toFixed2 (actualDeduction am a))
          (filter (charged am) (map snd (p # pairs))) (new1 @ new2)"
  proof -
    have "filter (charged am) (map snd (p # pairs))
            = filter (charged am) [snd p] @ filter (charged am) (map snd pairs)"
      by simp
    then show ?thesis
      by (simp only:) (rule list_all2_appendI [OF n1(4) rel])
  qed
  ultimately show ?case by blast
qed

lemma rentLoop_Some_rows:
  "rentLoop c am rows s = (d', Some r) \<Longrightarrow> \<exists>pairs. rows = map (\<lambda>p. (fst p, Some (snd p))) pairs"
proof (induction c am rows s rule: rentLoop.induct)
  case (1 caller am s)
  have "[] = map (\<lambda>p. (fst p, Some (snd p))) []" by simp
  then show ?case by blast
next
  case (2 caller am student rest s)
  then show ?case by simp
next
  case (3 caller am student acct rest s)
  then obtain pairs where "rest = map (\<lambda>p. (fst p, Some (snd p))) pairs" by auto
  then have "(student, Some acct) # rest = map (\<lambda>p. (fst p, Some (snd p))) ((student, acct) # pairs)"
    by simp
  then show ?case by (rule exI [of _ "(student, acct) # pairs"])
qed

lemma map_filter_rows:
  "List.map_filter snd (map (\<lambda>p. (fst p, Some (snd p))) pairs) = map snd pairs"
  by (induction pairs) (simp_all add: List.map_filter_simps)

lemma collect_rent_Json:
  assumes "post_collect_rent d caller am = (d', Json res)"
  shows "\<exists>pairs. getAllStudents d = map (\<lambda>p. (fst p, Some (snd p))) pairs
           \<and> rentLoop caller am (getAllStudents d) (d, [], 0)
                = (d', Some (rent_transactions res, studentsAffected res))"
proof -
  from assms obtain r where loop: "rentLoop caller am (getAllStudents d) (d, [], 0) = (d', Some r)"
    and res: "rent_transactions res = fst r" "studentsAffected res = snd r"
    by (auto simp: post_collect_rent_def split: option.splits if_splits prod.splits)
  from rentLoop_Some_rows [OF loop] loop res show ?thesis by auto
qed



text \<open>
  C7. A turn of the rent loop for an account whose balance is not above zero (0.00 in
  particular) changes nothing: the store, the list of transactions and the count of
  students affected are as before. And whenever the route answers, the count it reports
  is the number of transactions it emitted, one for each student row that was charged,
  and every such row had a balance strictly above zero.
\<close>

theorem rent_skips_empty_accounts:
  "(\<not> js_gt (parseFloat (balance acct)) (Fin 0) \<longrightarrow> rentStudent caller am student acct s = s)
   \<and> (post_collect_rent d caller am = (d', Json res) \<longrightarrow>
        studentsAffected res = length (rent_transactions res)
        \<and> list_all2 (\<lambda>a t. accountId t = acc_id a \<and> js_gt (parseFloat (balance a)) (Fin 0))
             (filter (charged am) (List.map_filter snd (getAllStudents d))) (rent_transactions res))"
proof (intro conjI impI)
  assume "\<not> js_gt (parseFloat (balance acct)) (Fin 0)"
  then show "rentStudent caller am student acct s = s"
    by (cases s) (simp add: rentStudent_eq)
next
  assume run: "post_collect_rent d caller am = (d', Json res)"
  from collect_rent_Json [OF run] obtain pairs where
    rows: "getAllStudents d = map (\<lambda>p. (fst p, Some (snd p))) pairs"
    and loop: "rentLoop caller am (getAllStudents d) (d, [], 0)
                = (d', Some (rent_transactions res, studentsAffected res))"
    by blast
  from rentLoop_all [of caller am pairs d "[]" 0] loop obtain new where
    new: "rent_transactions res = new" "studentsAffected res = length new"
    and rel: "list_all2 (\<lambda>a t. accountId t = acc_id a \<and> tx_type t = ''rent''
                    \<and> amount t = CHR ''-'' # toFixed2 (actualDeduction am a))
          (filter (charged am) (map snd pairs)) new"
    unfolding rows by auto
  from new show "studentsAffected res = length (rent_transactions res)" by simp
  from rel have "list_all2 (\<lambda>a t. accountId t = acc_id a \<and> js_gt (parseFloat (balance a)) (Fin 0))
             (filter (charged am) (map snd pairs)) new"
    by (rule list.rel_mono_strong) (simp add: charged_def)
  then show "list_all2 (\<lambda>a t. accountId t = acc_id a \<and> js_gt (parseFloat (balance a)) (Fin 0))
             (filter (charged am) (List.map_filter snd (getAllStudents d))) (rent_transactions res)"
    by (simp only: rows map_filter_rows new(1))
qed

theorem rent_skips_empty_accounts_witness:
  "\<not> js_gt (parseFloat (balance \<lparr>acc_id = 2, userId = ''bob'', balance = ''0.00''\<rparr>)) (Fin 0)
   \<and> rentStudent ''teacher1'' ''50.00'' \<lparr>uid = ''bob'', role = ''student''\<rparr>
        \<lparr>acc_id = 2, userId = ''bob'', balance = ''0.00''\<rparr> (classroom ''30.00'', [], 0)
       = (classroom ''30.00'', [], 0)
   \<and> post_collect_rent (classroom ''30.00'') ''teacher1'' ''50.00''
       = (fst (post_collect_rent (classroom ''30.00'') ''teacher1'' ''50.00''),
          Json \<lparr>rent_message = ''Monthly rent collected from 1 students'',
                 rent_transactions =
                   [\<lparr>tx_id = 2, accountId = 1, tx_type = ''rent'', amount = ''-30.00'',
                      description = ''Monthly Rent'', createdBy = ''teacher1''\<rparr>],
                 studentsAffected = 1\<rparr>)
   \<and> list_all2 (\<lambda>a t. accountId t = acc_id a \<and> js_gt (parseFloat (balance a)) (Fin 0))
        (filter (charged ''50.00'') (List.map_filter snd (getAllStudents (classroom ''30.00''))))
        [\<lparr>tx_id = 2, accountId = 1, tx_type = ''rent'', amount = ''-30.00'',
           description = ''Monthly Rent'', createdBy = ''teacher1''\<rparr>]"
proof -
  let ?res = "\<lparr>rent_message = ''Monthly rent collected from 1 students'',
                 rent_transactions =
                   [\<lparr>tx_id = 2, accountId = 1, tx_type = ''rent'', amount = ''-30.00'',
                      description = ''Monthly Rent'', createdBy = ''teacher1''\<rparr>],
                 studentsAffected = 1\<rparr>"
  have z: "\<not> js_gt (parseFloat (balance \<lparr>acc_id = 2, userId = ''bob'', balance = ''0.00''\<rparr>)) (Fin 0)"
    by code_simp
  have e: "post_collect_rent (classroom ''30.00'') ''teacher1'' ''50.00''
       = (fst (post_collect_rent (classroom ''30.00'') ''teacher1'' ''50.00''), Json ?res)"
    by code_simp
  from rent_skips_empty_accounts [of "\<lparr>acc_id = 2, userId = ''bob'', balance = ''0.00''\<rparr>"
      "''teacher1''" "''50.00''" "\<lparr>uid = ''bob'', role = ''student''\<rparr>" "(classroom ''30.00'', [], 0)"
      "classroom ''30.00''" "fst (post_collect_rent (classroom ''30.00'') ''teacher1'' ''50.00'')" ?res]
    z e
  show ?thesis by simp
qed



section \<open>The ledger stays reconciled\<close>


lemma ledgerSum_same:
  "transactions d1 = transactions d \<Longrightarrow> ledgerSum d1 k = ledgerSum d k"
  by (simp add: ledgerSum_def)























end
